theory Spec2Isabelle
  imports Main
begin

section \<open>Data model (the bun model structs)\<close>

text \<open>
  The four bun models.  Go's \<open>uint\<close> identifiers are only ever compared for
  equality (the source performs no arithmetic on them), so they are natural numbers here.
  Record fields are global constants in HOL, hence the prefixes.
\<close>

record Role =
  r_id :: nat
  r_name :: string
  r_title :: string

record Permission =
  p_id :: nat
  p_name :: string
  p_title :: string

record RolePermission =
  rp_id :: nat
  rp_role_id :: nat
  rp_permission_id :: nat

record UserRole =
  ur_id :: nat
  ur_user_id :: nat
  ur_role_id :: nat

text \<open>
  The package's sentinel errors, \<open>sql.ErrNoRows\<close>, and the failures the storage layer
  itself can raise: a violated constraint of the schema created by \<open>migrateTables\<close>
  and any other driver failure (identified by a code).
\<close>

datatype error =
    ErrPermissionInUse
  | ErrPermissionNotFound
  | ErrRoleAlreadyAssigned
  | ErrRoleInUse
  | ErrRoleNotFound
  | ErrRolePermissionNotFound
  | ErrUserRoleNotFound
  | ErrRoleExists
  | ErrNoRows
  | ErrConstraint
  | ErrDriver nat

section \<open>The storage collaborator (bun over the schema of migrateTables)\<close>

text \<open>
  The database is the four tables in storage order, the auto-increment counters of their
  primary keys, and a schedule of outcomes for the coming round trips: each statement sent
  to the database consumes the head of \<open>faults\<close>; \<open>Some c\<close> makes that statement fail with
  driver error \<open>c\<close> and leaves the tables alone, \<open>None\<close> or an exhausted schedule lets it run.
\<close>

record db =
  roles :: "Role list"
  permissions :: "Permission list"
  role_permissions :: "RolePermission list"
  user_roles :: "UserRole list"
  seq_role :: nat
  seq_permission :: nat
  seq_role_permission :: nat
  seq_user_role :: nat
  faults :: "nat option list"

definition tables :: "db \<Rightarrow> Role list \<times> Permission list \<times> RolePermission list \<times> UserRole list" where
  "tables s = (roles s, permissions s, role_permissions s, user_roles s)"

definition round_trip :: "db \<Rightarrow> nat option \<times> db" where
  "round_trip s = (case faults s of [] \<Rightarrow> (None, s) | f # fs \<Rightarrow> (f, s\<lparr>faults := fs\<rparr>))"

text \<open>
  \<open>Scan\<close> into a single struct: the first matching row, \<open>sql.ErrNoRows\<close> when there is none.
\<close>

definition scan_one :: "(db \<Rightarrow> 'r list) \<Rightarrow> ('r \<Rightarrow> bool) \<Rightarrow> db \<Rightarrow> (error + 'r) \<times> db" where
  "scan_one tbl P s =
     (case round_trip s of
        (Some c, s') \<Rightarrow> (Inl (ErrDriver c), s')
      | (None, s') \<Rightarrow>
          (case filter P (tbl s') of
             [] \<Rightarrow> (Inl ErrNoRows, s')
           | r # _ \<Rightarrow> (Inr r, s')))"

text \<open>\<open>Scan\<close> into a slice: every matching row; an empty result is not an error.\<close>

definition scan_many :: "(db \<Rightarrow> 'r list) \<Rightarrow> ('r \<Rightarrow> bool) \<Rightarrow> db \<Rightarrow> (error + 'r list) \<times> db" where
  "scan_many tbl P s =
     (case round_trip s of
        (Some c, s') \<Rightarrow> (Inl (ErrDriver c), s')
      | (None, s') \<Rightarrow> (Inr (filter P (tbl s')), s'))"

definition exists_row :: "(db \<Rightarrow> 'r list) \<Rightarrow> ('r \<Rightarrow> bool) \<Rightarrow> db \<Rightarrow> (error + bool) \<times> db" where
  "exists_row tbl P s =
     (case round_trip s of
        (Some c, s') \<Rightarrow> (Inl (ErrDriver c), s')
      | (None, s') \<Rightarrow> (Inr (filter P (tbl s') \<noteq> []), s'))"

text \<open>A \<open>SELECT\<close> sent with \<open>Exec\<close>: the rows are discarded and nothing is written.\<close>

definition exec_select :: "db \<Rightarrow> error option \<times> db" where
  "exec_select s =
     (case round_trip s of
        (Some c, s') \<Rightarrow> (Some (ErrDriver c), s')
      | (None, s') \<Rightarrow> (None, s'))"

text \<open>
  Inserts.  The primary key comes from the table's counter; \<open>name\<close> is \<open>unique\<close> in
  \<open>roles\<close> and \<open>permissions\<close>; the link tables carry the foreign keys that
  \<open>migrateTables\<close> declares.
\<close>

definition insert_role :: "string \<Rightarrow> db \<Rightarrow> error option \<times> db" where
  "insert_role n s =
     (case round_trip s of
        (Some c, s') \<Rightarrow> (Some (ErrDriver c), s')
      | (None, s') \<Rightarrow>
          if n \<in> set (map r_name (roles s')) then (Some ErrConstraint, s')
          else (None, s'\<lparr>roles := roles s' @ [\<lparr>r_id = seq_role s', r_name = n, r_title = []\<rparr>],
                           seq_role := Suc (seq_role s')\<rparr>))"

definition insert_permission :: "string \<Rightarrow> db \<Rightarrow> error option \<times> db" where
  "insert_permission n s =
     (case round_trip s of
        (Some c, s') \<Rightarrow> (Some (ErrDriver c), s')
      | (None, s') \<Rightarrow>
          if n \<in> set (map p_name (permissions s')) then (Some ErrConstraint, s')
          else (None, s'\<lparr>permissions :=
                             permissions s' @ [\<lparr>p_id = seq_permission s', p_name = n, p_title = []\<rparr>],
                           seq_permission := Suc (seq_permission s')\<rparr>))"

definition insert_role_permission :: "nat \<Rightarrow> nat \<Rightarrow> db \<Rightarrow> error option \<times> db" where
  "insert_role_permission rid pid s =
     (case round_trip s of
        (Some c, s') \<Rightarrow> (Some (ErrDriver c), s')
      | (None, s') \<Rightarrow>
          if rid \<in> set (map r_id (roles s')) \<and> pid \<in> set (map p_id (permissions s'))
          then (None, s'\<lparr>role_permissions := role_permissions s' @
                             [\<lparr>rp_id = seq_role_permission s', rp_role_id = rid, rp_permission_id = pid\<rparr>],
                           seq_role_permission := Suc (seq_role_permission s')\<rparr>)
          else (Some ErrConstraint, s'))"

definition insert_user_role :: "nat \<Rightarrow> nat \<Rightarrow> db \<Rightarrow> error option \<times> db" where
  "insert_user_role uid rid s =
     (case round_trip s of
        (Some c, s') \<Rightarrow> (Some (ErrDriver c), s')
      | (None, s') \<Rightarrow>
          if rid \<in> set (map r_id (roles s'))
          then (None, s'\<lparr>user_roles := user_roles s' @
                             [\<lparr>ur_id = seq_user_role s', ur_user_id = uid, ur_role_id = rid\<rparr>],
                           seq_user_role := Suc (seq_user_role s')\<rparr>)
          else (Some ErrConstraint, s'))"

text \<open>
  Deletes.  Rows of the link tables go with the role or permission they reference
  (\<open>ON DELETE CASCADE\<close> in \<open>migrateTables\<close>).
\<close>

definition delete_roles :: "(Role \<Rightarrow> bool) \<Rightarrow> db \<Rightarrow> error option \<times> db" where
  "delete_roles P s =
     (case round_trip s of
        (Some c, s') \<Rightarrow> (Some (ErrDriver c), s')
      | (None, s') \<Rightarrow>
          (let gone = map r_id (filter P (roles s'))
           in (None, s'\<lparr>roles := filter (\<lambda>r. \<not> P r) (roles s'),
                         role_permissions :=
                           filter (\<lambda>rp. rp_role_id rp \<notin> set gone) (role_permissions s'),
                         user_roles :=
                           filter (\<lambda>ur. ur_role_id ur \<notin> set gone) (user_roles s')\<rparr>)))"

definition delete_permissions :: "(Permission \<Rightarrow> bool) \<Rightarrow> db \<Rightarrow> error option \<times> db" where
  "delete_permissions P s =
     (case round_trip s of
        (Some c, s') \<Rightarrow> (Some (ErrDriver c), s')
      | (None, s') \<Rightarrow>
          (let gone = map p_id (filter P (permissions s'))
           in (None, s'\<lparr>permissions := filter (\<lambda>p. \<not> P p) (permissions s'),
                         role_permissions :=
                           filter (\<lambda>rp. rp_permission_id rp \<notin> set gone) (role_permissions s')\<rparr>)))"

definition delete_role_permissions :: "(RolePermission \<Rightarrow> bool) \<Rightarrow> db \<Rightarrow> error option \<times> db" where
  "delete_role_permissions P s =
     (case round_trip s of
        (Some c, s') \<Rightarrow> (Some (ErrDriver c), s')
      | (None, s') \<Rightarrow>
          (None, s'\<lparr>role_permissions := filter (\<lambda>rp. \<not> P rp) (role_permissions s')\<rparr>))"

definition delete_user_roles :: "(UserRole \<Rightarrow> bool) \<Rightarrow> db \<Rightarrow> error option \<times> db" where
  "delete_user_roles P s =
     (case round_trip s of
        (Some c, s') \<Rightarrow> (Some (ErrDriver c), s')
      | (None, s') \<Rightarrow> (None, s'\<lparr>user_roles := filter (\<lambda>ur. \<not> P ur) (user_roles s')\<rparr>))"

section \<open>Resolution helpers (authority.go, getRole .. getUserRole)\<close>

text \<open>
  A Go result \<open>(*T, error)\<close> is \<open>Inl err\<close> or \<open>Inr value\<close>; the zero value of a struct
  that was declared and never filled is written out.
\<close>

definition zero_Role :: Role where
  "zero_Role = \<lparr>r_id = 0, r_name = [], r_title = []\<rparr>"

definition zero_Permission :: Permission where
  "zero_Permission = \<lparr>p_id = 0, p_name = [], p_title = []\<rparr>"

definition getRole :: "string \<Rightarrow> db \<Rightarrow> (error + Role) \<times> db" where
  "getRole roleName s =
     (case scan_one roles (\<lambda>r. r_name r = roleName) s of
        (Inl err, s') \<Rightarrow>
          if err = ErrNoRows then (Inl ErrRoleNotFound, s') else (Inr zero_Role, s')
      | (Inr role, s') \<Rightarrow> (Inr role, s'))"

definition getPermission :: "string \<Rightarrow> db \<Rightarrow> (error + Permission) \<times> db" where
  "getPermission permName s =
     (case scan_one permissions (\<lambda>p. p_name p = permName) s of
        (Inl err, s') \<Rightarrow>
          if err = ErrNoRows then (Inl ErrPermissionNotFound, s') else (Inr zero_Permission, s')
      | (Inr perm, s') \<Rightarrow> (Inr perm, s'))"

definition getRolePermission :: "nat \<Rightarrow> nat \<Rightarrow> db \<Rightarrow> (error + RolePermission) \<times> db" where
  "getRolePermission roleID permID s =
     (case scan_one role_permissions
             (\<lambda>rp. rp_role_id rp = roleID \<and> rp_permission_id rp = permID) s of
        (Inl err, s') \<Rightarrow>
          if err = ErrNoRows then (Inl ErrRolePermissionNotFound, s') else (Inl err, s')
      | (Inr rolePerm, s') \<Rightarrow> (Inr rolePerm, s'))"

definition getUserRole :: "nat \<Rightarrow> nat \<Rightarrow> db \<Rightarrow> (error + UserRole) \<times> db" where
  "getUserRole userID roleID s =
     (case scan_one user_roles (\<lambda>ur. ur_user_id ur = userID \<and> ur_role_id ur = roleID) s of
        (Inl err, s') \<Rightarrow>
          if err = ErrNoRows then (Inl ErrUserRoleNotFound, s') else (Inl err, s')
      | (Inr userRole, s') \<Rightarrow> (Inr userRole, s'))"

section \<open>Public operations (authority.go)\<close>

definition CreateRole :: "string \<Rightarrow> db \<Rightarrow> error option \<times> db" where
  "CreateRole roleName s =
     (case exists_row roles (\<lambda>r. r_name r = roleName) s of
        (Inl err, s1) \<Rightarrow> (Some err, s1)
      | (Inr ex, s1) \<Rightarrow>
          if \<not> ex then
            (case insert_role roleName s1 of
               (Some err, s2) \<Rightarrow> (Some err, s2)
             | (None, s2) \<Rightarrow> (None, s2))
          else (None, s1))"

definition CreatePermission :: "string \<Rightarrow> db \<Rightarrow> error option \<times> db" where
  "CreatePermission permName s =
     (case exists_row permissions (\<lambda>p. p_name p = permName) s of
        (Inl err, s1) \<Rightarrow> (Some err, s1)
      | (Inr ex, s1) \<Rightarrow>
          if \<not> ex then
            (case insert_permission permName s1 of
               (Some err, s2) \<Rightarrow> (Some err, s2)
             | (None, s2) \<Rightarrow> (None, s2))
          else (None, s1))"

text \<open>The two loops of \<open>AssignPermissions\<close>: resolve every name, then link.\<close>

fun resolve_perms :: "string list \<Rightarrow> Permission list \<Rightarrow> db \<Rightarrow> (error + Permission list) \<times> db" where
  "resolve_perms [] perms s = (Inr perms, s)"
| "resolve_perms (permName # rest) perms s =
     (case getPermission permName s of
        (Inl err, s') \<Rightarrow> (Inl err, s')
      | (Inr perm, s') \<Rightarrow> resolve_perms rest (perms @ [perm]) s')"

fun link_perms :: "Role \<Rightarrow> Permission list \<Rightarrow> db \<Rightarrow> error option \<times> db" where
  "link_perms role [] s = (None, s)"
| "link_perms role (perm # rest) s =
     (case getRolePermission (r_id role) (p_id perm) s of
        (Inr _, s1) \<Rightarrow> link_perms role rest s1
      | (Inl _, s1) \<Rightarrow>
          (case insert_role_permission (r_id role) (p_id perm) s1 of
             (Some err, s2) \<Rightarrow> (Some err, s2)
           | (None, s2) \<Rightarrow> link_perms role rest s2))"

definition AssignPermissions :: "string \<Rightarrow> string list \<Rightarrow> db \<Rightarrow> error option \<times> db" where
  "AssignPermissions roleName permNames s =
     (case getRole roleName s of
        (Inl err, s1) \<Rightarrow> (Some err, s1)
      | (Inr role, s1) \<Rightarrow>
          (case resolve_perms permNames [] s1 of
             (Inl err, s2) \<Rightarrow> (Some err, s2)
           | (Inr perms, s2) \<Rightarrow> link_perms role perms s2))"

definition AssignRole :: "nat \<Rightarrow> string \<Rightarrow> db \<Rightarrow> error option \<times> db" where
  "AssignRole userID roleName s =
     (case getRole roleName s of
        (Inl err, s1) \<Rightarrow> (Some err, s1)
      | (Inr role, s1) \<Rightarrow>
          (case getUserRole userID (r_id role) s1 of
             (Inr _, s2) \<Rightarrow> (Some ErrRoleAlreadyAssigned, s2)
           | (Inl _, s2) \<Rightarrow> insert_user_role userID (r_id role) s2))"

definition CheckRole :: "nat \<Rightarrow> string \<Rightarrow> db \<Rightarrow> (error + bool) \<times> db" where
  "CheckRole userID roleName s =
     (case getRole roleName s of
        (Inl err, s1) \<Rightarrow> (Inl err, s1)
      | (Inr role, s1) \<Rightarrow>
          (case getUserRole userID (r_id role) s1 of
             (Inl err, s2) \<Rightarrow>
               if err = ErrUserRoleNotFound then (Inr False, s2) else (Inl err, s2)
           | (Inr _, s2) \<Rightarrow> (Inr True, s2)))"

definition CheckPermission :: "nat \<Rightarrow> string \<Rightarrow> db \<Rightarrow> (error + bool) \<times> db" where
  "CheckPermission userID permName s =
     (case scan_many user_roles (\<lambda>ur. ur_user_id ur = userID) s of
        (Inl err, s1) \<Rightarrow> if err = ErrNoRows then (Inr False, s1) else (Inl err, s1)
      | (Inr userRoles, s1) \<Rightarrow>
          (let roleIDs = map ur_role_id userRoles
           in case getPermission permName s1 of
                (Inl err, s2) \<Rightarrow> (Inl err, s2)
              | (Inr perm, s2) \<Rightarrow>
                  (case scan_one role_permissions
                          (\<lambda>rp. rp_role_id rp \<in> set roleIDs \<and> rp_permission_id rp = p_id perm) s2 of
                     (Inl _, s3) \<Rightarrow> (Inr False, s3)
                   | (Inr _, s3) \<Rightarrow> (Inr True, s3))))"

definition CheckRolePermission :: "string \<Rightarrow> string \<Rightarrow> db \<Rightarrow> (error + bool) \<times> db" where
  "CheckRolePermission roleName permName s =
     (case getRole roleName s of
        (Inl err, s1) \<Rightarrow> (Inl err, s1)
      | (Inr role, s1) \<Rightarrow>
          (case getPermission permName s1 of
             (Inl err, s2) \<Rightarrow> (Inl err, s2)
           | (Inr perm, s2) \<Rightarrow>
               (case getRolePermission (r_id role) (p_id perm) s2 of
                  (Inl err, s3) \<Rightarrow>
                    if err = ErrRolePermissionNotFound then (Inr False, s3) else (Inl err, s3)
                | (Inr _, s3) \<Rightarrow> (Inr True, s3))))"

definition RevokeRole :: "nat \<Rightarrow> string \<Rightarrow> db \<Rightarrow> error option \<times> db" where
  "RevokeRole userID roleName s =
     (case getRole roleName s of
        (Inl err, s1) \<Rightarrow> (Some err, s1)
      | (Inr role, s1) \<Rightarrow>
          delete_user_roles (\<lambda>ur. ur_user_id ur = userID \<and> ur_role_id ur = r_id role) s1)"

fun revoke_each :: "UserRole list \<Rightarrow> Permission \<Rightarrow> db \<Rightarrow> error option \<times> db" where
  "revoke_each [] perm s = (None, s)"
| "revoke_each (r # rest) perm s =
     (case delete_role_permissions
             (\<lambda>rp. rp_role_id rp = ur_role_id r \<and> rp_permission_id rp = p_id perm) s of
        (Some err, s') \<Rightarrow> (Some err, s')
      | (None, s') \<Rightarrow> revoke_each rest perm s')"

definition RevokePermission :: "nat \<Rightarrow> string \<Rightarrow> db \<Rightarrow> error option \<times> db" where
  "RevokePermission userID permName s =
     (case scan_many user_roles (\<lambda>ur. ur_user_id ur = userID) s of
        (Inl err, s1) \<Rightarrow> if err = ErrNoRows then (None, s1) else (Some err, s1)
      | (Inr userRoles, s1) \<Rightarrow>
          (case getPermission permName s1 of
             (Inl err, s2) \<Rightarrow> (Some err, s2)
           | (Inr perm, s2) \<Rightarrow> revoke_each userRoles perm s2))"

text \<open>The result of the delete is assigned to \<open>err\<close> and the function returns \<open>nil\<close>.\<close>

definition RevokeRolePermission :: "string \<Rightarrow> string \<Rightarrow> db \<Rightarrow> error option \<times> db" where
  "RevokeRolePermission roleName permName s =
     (case getRole roleName s of
        (Inl err, s1) \<Rightarrow> (Some err, s1)
      | (Inr role, s1) \<Rightarrow>
          (case getPermission permName s1 of
             (Inl err, s2) \<Rightarrow> (Some err, s2)
           | (Inr perm, s2) \<Rightarrow>
               (case delete_role_permissions
                       (\<lambda>rp. rp_role_id rp = r_id role \<and> rp_permission_id rp = p_id perm) s2 of
                  (_, s3) \<Rightarrow> (None, s3))))"

definition GetRoles :: "db \<Rightarrow> (error + string list) \<times> db" where
  "GetRoles s =
     (case scan_many roles (\<lambda>_. True) s of
        (Inl err, s') \<Rightarrow> (Inl err, s')
      | (Inr rs, s') \<Rightarrow> (Inr (map r_name rs), s'))"

fun role_names :: "UserRole list \<Rightarrow> string list \<Rightarrow> db \<Rightarrow> string list \<times> db" where
  "role_names [] result s = (result, s)"
| "role_names (r # rest) result s =
     (case scan_one roles (\<lambda>role. r_id role = ur_role_id r) s of
        (Inr role, s') \<Rightarrow> role_names rest (result @ [r_name role]) s'
      | (Inl _, s') \<Rightarrow> role_names rest result s')"

definition GetUserRoles :: "nat \<Rightarrow> db \<Rightarrow> (error + string list) \<times> db" where
  "GetUserRoles userID s =
     (case scan_many user_roles (\<lambda>ur. ur_user_id ur = userID) s of
        (Inl err, s1) \<Rightarrow> (Inl err, s1)
      | (Inr userRoles, s1) \<Rightarrow>
          (case role_names userRoles [] s1 of (result, s2) \<Rightarrow> (Inr result, s2)))"

definition GetPermissions :: "db \<Rightarrow> (error + string list) \<times> db" where
  "GetPermissions s =
     (case scan_many permissions (\<lambda>_. True) s of
        (Inl err, s') \<Rightarrow> (Inl err, s')
      | (Inr ps, s') \<Rightarrow> (Inr (map p_name ps), s'))"

text \<open>
  \<open>DeleteRole\<close>: between the guard and the delete the source sends a \<open>SELECT\<close> on
  \<open>role_permissions\<close> through \<open>Exec\<close>; the link rows leave with the role row, by the cascade.
\<close>

definition DeleteRole :: "string \<Rightarrow> db \<Rightarrow> error option \<times> db" where
  "DeleteRole roleName s =
     (case getRole roleName s of
        (Inl err, s1) \<Rightarrow> (Some err, s1)
      | (Inr role, s1) \<Rightarrow>
          (case scan_one user_roles (\<lambda>ur. ur_role_id ur = r_id role) s1 of
             (Inr _, s2) \<Rightarrow> (Some ErrRoleInUse, s2)
           | (Inl _, s2) \<Rightarrow>
               (case exec_select s2 of
                  (Some err, s3) \<Rightarrow> (Some err, s3)
                | (None, s3) \<Rightarrow>
                    (case delete_roles (\<lambda>r. r_name r = roleName) s3 of
                       (Some err, s4) \<Rightarrow> (Some err, s4)
                     | (None, s4) \<Rightarrow> (None, s4)))))"

definition DeletePermission :: "string \<Rightarrow> db \<Rightarrow> error option \<times> db" where
  "DeletePermission permName s =
     (case getPermission permName s of
        (Inl err, s1) \<Rightarrow> (Some err, s1)
      | (Inr perm, s1) \<Rightarrow>
          (case scan_one role_permissions (\<lambda>rp. rp_permission_id rp = p_id perm) s1 of
             (Inr _, s2) \<Rightarrow> (Some ErrPermissionInUse, s2)
           | (Inl _, s2) \<Rightarrow>
               (case delete_permissions (\<lambda>p. p_name p = permName) s2 of
                  (Some err, s3) \<Rightarrow> (Some err, s3)
                | (None, s3) \<Rightarrow> (None, s3))))"

section \<open>A sample database\<close>

text \<open>
  The empty schema after \<open>New\<close>, and the state the example program (example/main.go)
  reaches with its first five calls.
\<close>

definition empty_db :: db where
  "empty_db = \<lparr>roles = [], permissions = [], role_permissions = [], user_roles = [],
     seq_role = 1, seq_permission = 1, seq_role_permission = 1, seq_user_role = 1, faults = []\<rparr>"

definition demo_db :: db where
  "demo_db = \<lparr>roles = [\<lparr>r_id = 1, r_name = ''role-1'', r_title = []\<rparr>],
     permissions = [\<lparr>p_id = 1, p_name = ''perm-1'', p_title = []\<rparr>,
                    \<lparr>p_id = 2, p_name = ''perm-2'', p_title = []\<rparr>],
     role_permissions = [\<lparr>rp_id = 1, rp_role_id = 1, rp_permission_id = 1\<rparr>,
                         \<lparr>rp_id = 2, rp_role_id = 1, rp_permission_id = 2\<rparr>],
     user_roles = [\<lparr>ur_id = 1, ur_user_id = 1, ur_role_id = 1\<rparr>],
     seq_role = 2, seq_permission = 3, seq_role_permission = 3, seq_user_role = 2, faults = []\<rparr>"

section \<open>Counting link rows\<close>




section \<open>Reads do not write\<close>

lemma round_trip_tables: "tables (snd (round_trip s)) = tables s"
  by (simp add: round_trip_def tables_def split: list.splits)

lemma scan_one_tables: "tables (snd (scan_one tbl P s)) = tables s"
  using round_trip_tables [of s]
  by (auto simp: scan_one_def split: prod.splits option.splits list.splits)

lemma scan_many_tables: "tables (snd (scan_many tbl P s)) = tables s"
  using round_trip_tables [of s]
  by (auto simp: scan_many_def split: prod.splits option.splits)

lemma getRole_tables: "tables (snd (getRole n s)) = tables s"
  using scan_one_tables [of roles "\<lambda>r. r_name r = n" s]
  by (auto simp: getRole_def split: prod.splits sum.splits)

lemma getPermission_tables: "tables (snd (getPermission n s)) = tables s"
  using scan_one_tables [of permissions "\<lambda>p. p_name p = n" s]
  by (auto simp: getPermission_def split: prod.splits sum.splits)

lemma getRolePermission_tables: "tables (snd (getRolePermission r p s)) = tables s"
  using scan_one_tables [of role_permissions "\<lambda>rp. rp_role_id rp = r \<and> rp_permission_id rp = p" s]
  by (auto simp: getRolePermission_def split: prod.splits sum.splits)

lemma getUserRole_tables: "tables (snd (getUserRole u r s)) = tables s"
  using scan_one_tables [of user_roles "\<lambda>ur. ur_user_id ur = u \<and> ur_role_id ur = r" s]
  by (auto simp: getUserRole_def split: prod.splits sum.splits)

lemma role_names_tables: "tables (snd (role_names urs acc s)) = tables s"
proof (induction urs arbitrary: acc s)
  case Nil
  show ?case by simp
next
  case (Cons r rest)
  show ?case
    using scan_one_tables [of roles "\<lambda>role. r_id role = ur_role_id r" s] Cons.IH
    by (auto split: prod.splits sum.splits)
qed

lemma CheckRole_tables: "tables (snd (CheckRole u n s)) = tables s"
proof -
  obtain a s1 where g: "getRole n s = (a, s1)" by (cases "getRole n s")
  have t1: "tables s1 = tables s" using getRole_tables [of n s] g by simp
  show ?thesis
  proof (cases a)
    case (Inl e)
    then show ?thesis using g t1 by (simp add: CheckRole_def)
  next
    case (Inr role)
    obtain b s2 where u: "getUserRole u (r_id role) s1 = (b, s2)"
      by (cases "getUserRole u (r_id role) s1")
    have "tables s2 = tables s1" using getUserRole_tables [of u "r_id role" s1] u by simp
    then show ?thesis using g t1 Inr u by (auto simp: CheckRole_def split: sum.splits)
  qed
qed

lemma CheckPermission_tables: "tables (snd (CheckPermission u n s)) = tables s"
proof -
  let ?P = "\<lambda>ur. ur_user_id ur = u"
  obtain a s1 where g: "scan_many user_roles ?P s = (a, s1)" by (cases "scan_many user_roles ?P s")
  have t1: "tables s1 = tables s" using scan_many_tables [of user_roles ?P s] g by simp
  show ?thesis
  proof (cases a)
    case (Inl e)
    then show ?thesis using g t1 by (simp add: CheckPermission_def)
  next
    case (Inr urs)
    obtain b s2 where p: "getPermission n s1 = (b, s2)" by (cases "getPermission n s1")
    have t2: "tables s2 = tables s1" using getPermission_tables [of n s1] p by simp
    show ?thesis
    proof (cases b)
      case (Inl e)
      then show ?thesis using g t1 Inr p t2 by (simp add: CheckPermission_def)
    next
      case (Inr perm)
      let ?Q = "\<lambda>rp. rp_role_id rp \<in> set (map ur_role_id urs) \<and> rp_permission_id rp = p_id perm"
      obtain c s3 where q: "scan_one role_permissions ?Q s2 = (c, s3)"
        by (cases "scan_one role_permissions ?Q s2")
      have "tables s3 = tables s2" using scan_one_tables [of role_permissions ?Q s2] q by simp
      then show ?thesis using g t1 \<open>a = Inr urs\<close> p t2 Inr q
        by (auto simp: CheckPermission_def split: sum.splits)
    qed
  qed
qed

lemma CheckRolePermission_tables: "tables (snd (CheckRolePermission rn pn s)) = tables s"
proof -
  obtain a s1 where g: "getRole rn s = (a, s1)" by (cases "getRole rn s")
  have t1: "tables s1 = tables s" using getRole_tables [of rn s] g by simp
  show ?thesis
  proof (cases a)
    case (Inl e)
    then show ?thesis using g t1 by (simp add: CheckRolePermission_def)
  next
    case role: (Inr role)
    obtain b s2 where p: "getPermission pn s1 = (b, s2)" by (cases "getPermission pn s1")
    have t2: "tables s2 = tables s1" using getPermission_tables [of pn s1] p by simp
    show ?thesis
    proof (cases b)
      case (Inl e)
      then show ?thesis using g t1 role p t2 by (simp add: CheckRolePermission_def)
    next
      case (Inr perm)
      obtain c s3 where q: "getRolePermission (r_id role) (p_id perm) s2 = (c, s3)"
        by (cases "getRolePermission (r_id role) (p_id perm) s2")
      have "tables s3 = tables s2"
        using getRolePermission_tables [of "r_id role" "p_id perm" s2] q by simp
      then show ?thesis using g t1 role p t2 Inr q
        by (auto simp: CheckRolePermission_def split: sum.splits)
    qed
  qed
qed

lemma GetRoles_tables: "tables (snd (GetRoles s)) = tables s"
  using scan_many_tables [of roles "\<lambda>_. True" s]
  by (auto simp: GetRoles_def split: prod.splits sum.splits)

lemma GetPermissions_tables: "tables (snd (GetPermissions s)) = tables s"
  using scan_many_tables [of permissions "\<lambda>_. True" s]
  by (auto simp: GetPermissions_def split: prod.splits sum.splits)

lemma GetUserRoles_tables: "tables (snd (GetUserRoles u s)) = tables s"
proof -
  let ?P = "\<lambda>ur. ur_user_id ur = u"
  obtain a s1 where g: "scan_many user_roles ?P s = (a, s1)" by (cases "scan_many user_roles ?P s")
  have t1: "tables s1 = tables s" using scan_many_tables [of user_roles ?P s] g by simp
  show ?thesis
  proof (cases a)
    case (Inl e)
    then show ?thesis using g t1 by (simp add: GetUserRoles_def)
  next
    case (Inr urs)
    have "tables (snd (role_names urs [] s1)) = tables s1" by (rule role_names_tables)
    then show ?thesis using g t1 Inr by (auto simp: GetUserRoles_def split: prod.splits)
  qed
qed


text \<open>
  C10.  Each read operation (CheckRole, CheckPermission, CheckRolePermission, GetRoles,
  GetUserRoles, GetPermissions) leaves the four tables as they were, for every argument,
  every database and every schedule of storage failures.
\<close>

theorem reads_leave_tables_unchanged:
  "tables (snd (CheckRole userID roleName s)) = tables s \<and>
   tables (snd (CheckPermission userID permName s)) = tables s \<and>
   tables (snd (CheckRolePermission roleName permName s)) = tables s \<and>
   tables (snd (GetRoles s)) = tables s \<and>
   tables (snd (GetUserRoles userID s)) = tables s \<and>
   tables (snd (GetPermissions s)) = tables s"
  by (simp only: CheckRole_tables CheckPermission_tables CheckRolePermission_tables
      GetRoles_tables GetUserRoles_tables GetPermissions_tables simp_thms)

theorem reads_leave_tables_unchanged_witness:
  "tables (snd (CheckRole 1 ''role-1'' (demo_db\<lparr>faults := [None, Some 3]\<rparr>))) = tables demo_db \<and>
   tables (snd (CheckPermission 1 ''perm-2'' (demo_db\<lparr>faults := [None, Some 3]\<rparr>))) = tables demo_db \<and>
   tables (snd (CheckRolePermission ''role-1'' ''perm-2'' (demo_db\<lparr>faults := [None, Some 3]\<rparr>))) = tables demo_db \<and>
   tables (snd (GetRoles (demo_db\<lparr>faults := [None, Some 3]\<rparr>))) = tables demo_db \<and>
   tables (snd (GetUserRoles 1 (demo_db\<lparr>faults := [None, Some 3]\<rparr>))) = tables demo_db \<and>
   tables (snd (GetPermissions (demo_db\<lparr>faults := [None, Some 3]\<rparr>))) = tables demo_db"
  using reads_leave_tables_unchanged [of 1 "''role-1''" "demo_db\<lparr>faults := [None, Some 3]\<rparr>" "''perm-2''"]
  by (simp add: tables_def)

section \<open>Storage that answers\<close>

text \<open>With no failure scheduled, a round trip returns its result and the schedule stays empty.\<close>

lemma round_trip_served: "faults s = [] \<Longrightarrow> round_trip s = (None, s)"
  by (simp add: round_trip_def)

lemma scan_one_served:
  "faults s = [] \<Longrightarrow>
   scan_one tbl P s = ((case filter P (tbl s) of [] \<Rightarrow> Inl ErrNoRows | r # _ \<Rightarrow> Inr r), s)"
  by (simp add: scan_one_def round_trip_served split: list.splits)

lemma scan_many_served: "faults s = [] \<Longrightarrow> scan_many tbl P s = (Inr (filter P (tbl s)), s)"
  by (simp add: scan_many_def round_trip_served)

lemma exists_row_served: "faults s = [] \<Longrightarrow> exists_row tbl P s = (Inr (filter P (tbl s) \<noteq> []), s)"
  by (simp add: exists_row_def round_trip_served)

lemma exec_select_served: "faults s = [] \<Longrightarrow> exec_select s = (None, s)"
  by (simp add: exec_select_def round_trip_served)

text \<open>The sample database is what the example program's calls produce.\<close>

lemma demo_db_run:
  "(let s1 = snd (CreateRole ''role-1'' empty_db);
        s2 = snd (CreatePermission ''perm-1'' s1);
        s3 = snd (CreatePermission ''perm-2'' s2);
        s4 = snd (AssignPermissions ''role-1'' [''perm-1'', ''perm-2''] s3);
        s5 = snd (AssignRole 1 ''role-1'' s4)
    in s5) = demo_db"
  by (simp add: empty_db_def demo_db_def CreateRole_def CreatePermission_def AssignPermissions_def
      AssignRole_def exists_row_served insert_role_def insert_permission_def round_trip_served
      getRole_def getPermission_def getRolePermission_def getUserRole_def scan_one_served
      insert_role_permission_def insert_user_role_def)

subsection \<open>Lookups by a unique name\<close>

lemma filter_unique_key:
  "distinct (map f xs) \<Longrightarrow> x \<in> set xs \<Longrightarrow> filter (\<lambda>y. f y = f x) xs = [x]"
proof (induction xs)
  case Nil
  then show ?case by simp
next
  case (Cons a xs)
  show ?case
  proof (cases "a = x")
    case True
    have "f x \<notin> f ` set xs" using Cons.prems(1) True by simp
    then have "filter (\<lambda>y. f y = f x) xs = []"
      unfolding filter_empty_conv by (metis imageI)
    then show ?thesis using True by simp
  next
    case False
    then have "x \<in> set xs" using Cons.prems(2) by simp
    moreover have "f a \<noteq> f x" using Cons.prems(1) \<open>x \<in> set xs\<close> by auto
    ultimately show ?thesis using Cons by simp
  qed
qed

lemma filter_absent_key: "n \<notin> set (map f xs) \<Longrightarrow> filter (\<lambda>y. f y = n) xs = []"
  by (auto simp: filter_empty_conv)

lemma getRole_found:
  "faults s = [] \<Longrightarrow> distinct (map r_name (roles s)) \<Longrightarrow> role \<in> set (roles s) \<Longrightarrow>
   getRole (r_name role) s = (Inr role, s)"
  by (simp add: getRole_def scan_one_served filter_unique_key)



lemma getPermission_missing:
  "faults s = [] \<Longrightarrow> n \<notin> set (map p_name (permissions s)) \<Longrightarrow>
   getPermission n s = (Inl ErrPermissionNotFound, s)"
  by (simp add: getPermission_def scan_one_served filter_absent_key)

subsection \<open>Lookups of link rows\<close>



section \<open>CheckRole\<close>



section \<open>CreateRole and CreatePermission\<close>

lemma CreateRole_served:
  "faults s = [] \<Longrightarrow>
   CreateRole n s =
     (None, if n \<in> set (map r_name (roles s)) then s
            else s\<lparr>roles := roles s @ [\<lparr>r_id = seq_role s, r_name = n, r_title = []\<rparr>],
                   seq_role := Suc (seq_role s)\<rparr>)"
  by (auto simp: CreateRole_def exists_row_served insert_role_def round_trip_served
      filter_empty_conv)

lemma CreatePermission_served:
  "faults s = [] \<Longrightarrow>
   CreatePermission n s =
     (None, if n \<in> set (map p_name (permissions s)) then s
            else s\<lparr>permissions :=
                     permissions s @ [\<lparr>p_id = seq_permission s, p_name = n, p_title = []\<rparr>],
                   seq_permission := Suc (seq_permission s)\<rparr>)"
  by (auto simp: CreatePermission_def exists_row_served insert_permission_def round_trip_served
      filter_empty_conv)

lemma count_present_key:
  assumes "distinct (map f xs)" and "n \<in> set (map f xs)"
  shows "length (filter (\<lambda>y. f y = n) xs) = 1"
proof -
  obtain x where "x \<in> set xs" and "f x = n" using assms(2) by auto
  then show ?thesis using filter_unique_key [OF assms(1), of x] by simp
qed

lemma CreateRole_twice:
  assumes "faults s = []" and "distinct (map r_name (roles s))"
  shows "fst (CreateRole n s) = None \<and>
         CreateRole n (snd (CreateRole n s)) = (None, snd (CreateRole n s)) \<and>
         length (filter (\<lambda>r. r_name r = n) (roles (snd (CreateRole n s)))) = 1"
proof (cases "n \<in> set (map r_name (roles s))")
  case True
  then have "CreateRole n s = (None, s)" using assms(1) by (simp add: CreateRole_served)
  then show ?thesis using count_present_key [OF assms(2) True] by simp
next
  case False
  let ?s1 = "s\<lparr>roles := roles s @ [\<lparr>r_id = seq_role s, r_name = n, r_title = []\<rparr>],
                seq_role := Suc (seq_role s)\<rparr>"
  have c: "CreateRole n s = (None, ?s1)" using assms(1) False by (simp add: CreateRole_served)
  have "faults ?s1 = []" using assms(1) by simp
  then have "CreateRole n ?s1 = (None, ?s1)" by (simp add: CreateRole_served)
  moreover have "length (filter (\<lambda>r. r_name r = n) (roles ?s1)) = 1"
    using False by (simp add: filter_absent_key)
  ultimately show ?thesis using c by simp
qed

lemma CreatePermission_twice:
  assumes "faults s = []" and "distinct (map p_name (permissions s))"
  shows "fst (CreatePermission n s) = None \<and>
         CreatePermission n (snd (CreatePermission n s)) = (None, snd (CreatePermission n s)) \<and>
         length (filter (\<lambda>p. p_name p = n) (permissions (snd (CreatePermission n s)))) = 1"
proof (cases "n \<in> set (map p_name (permissions s))")
  case True
  then have "CreatePermission n s = (None, s)" using assms(1) by (simp add: CreatePermission_served)
  then show ?thesis using count_present_key [OF assms(2) True] by simp
next
  case False
  let ?s1 = "s\<lparr>permissions :=
                 permissions s @ [\<lparr>p_id = seq_permission s, p_name = n, p_title = []\<rparr>],
                seq_permission := Suc (seq_permission s)\<rparr>"
  have c: "CreatePermission n s = (None, ?s1)"
    using assms(1) False by (simp add: CreatePermission_served)
  have "faults ?s1 = []" using assms(1) by simp
  then have "CreatePermission n ?s1 = (None, ?s1)" by (simp add: CreatePermission_served)
  moreover have "length (filter (\<lambda>p. p_name p = n) (permissions ?s1)) = 1"
    using False by (simp add: filter_absent_key)
  ultimately show ?thesis using c by simp
qed

text \<open>
  C9.  With storage answering and names unique (the schema's constraint): CreateRole
  returns no error, a second CreateRole with the same name returns no error and leaves
  the state exactly as the first call left it, and exactly one Role row carries the name.
  CreatePermission behaves the same way on the permissions table.
\<close>

theorem creation_is_idempotent:
  assumes "faults s = []"
    and "distinct (map r_name (roles s))"
    and "distinct (map p_name (permissions s))"
  shows "(fst (CreateRole roleName s) = None \<and>
          CreateRole roleName (snd (CreateRole roleName s)) = (None, snd (CreateRole roleName s)) \<and>
          length (filter (\<lambda>r. r_name r = roleName) (roles (snd (CreateRole roleName s)))) = 1) \<and>
         (fst (CreatePermission permName s) = None \<and>
          CreatePermission permName (snd (CreatePermission permName s)) =
            (None, snd (CreatePermission permName s)) \<and>
          length (filter (\<lambda>p. p_name p = permName)
                    (permissions (snd (CreatePermission permName s)))) = 1)"
  using CreateRole_twice [OF assms(1) assms(2), of roleName]
    CreatePermission_twice [OF assms(1) assms(3), of permName]
  by (rule conjI)

theorem creation_is_idempotent_witness:
  "faults demo_db = [] \<and> distinct (map r_name (roles demo_db)) \<and>
   distinct (map p_name (permissions demo_db)) \<and>
   fst (CreateRole ''role-2'' demo_db) = None \<and>
   CreateRole ''role-2'' (snd (CreateRole ''role-2'' demo_db)) =
     (None, snd (CreateRole ''role-2'' demo_db)) \<and>
   map r_name (roles (snd (CreateRole ''role-2'' (snd (CreateRole ''role-2'' demo_db))))) =
     [''role-1'', ''role-2''] \<and>
   fst (CreatePermission ''perm-1'' demo_db) = None \<and>
   CreatePermission ''perm-1'' (snd (CreatePermission ''perm-1'' demo_db)) = (None, demo_db)"
proof -
  have h: "faults demo_db = []" "distinct (map r_name (roles demo_db))"
    "distinct (map p_name (permissions demo_db))"
    by (simp_all add: demo_db_def)
  have s1: "snd (CreateRole ''role-2'' demo_db) =
      demo_db\<lparr>roles := roles demo_db @ [\<lparr>r_id = 2, r_name = ''role-2'', r_title = []\<rparr>],
              seq_role := 3\<rparr>"
    by (simp add: CreateRole_served h(1)) (simp add: demo_db_def)
  have s2: "snd (CreatePermission ''perm-1'' demo_db) = demo_db"
    by (simp add: CreatePermission_served h(1)) (simp add: demo_db_def)
  show ?thesis
    using h creation_is_idempotent [OF h, of "''role-2''" "''perm-1''"]
    by (simp add: s1 s2) (simp add: demo_db_def)
qed

section \<open>AssignRole\<close>





section \<open>DeleteRole\<close>




lemma delete_roles_served:
  "faults s = [] \<Longrightarrow>
   delete_roles P s =
     (None, s\<lparr>roles := filter (\<lambda>r. \<not> P r) (roles s),
              role_permissions :=
                filter (\<lambda>rp. rp_role_id rp \<notin> set (map r_id (filter P (roles s))))
                  (role_permissions s),
              user_roles :=
                filter (\<lambda>ur. ur_role_id ur \<notin> set (map r_id (filter P (roles s))))
                  (user_roles s)\<rparr>)"
  by (simp add: delete_roles_def round_trip_served)


lemma GetRoles_served: "faults s = [] \<Longrightarrow> GetRoles s = (Inr (map r_name (roles s)), s)"
  by (simp add: GetRoles_def scan_many_served)

lemma DeleteRole_served:
  assumes "faults s = []" and "distinct (map r_name (roles s))" and "role \<in> set (roles s)"
    and "\<forall>ur \<in> set (user_roles s). ur_role_id ur \<noteq> r_id role"
  shows "DeleteRole (r_name role) s =
     (None, s\<lparr>roles := filter (\<lambda>r. r_name r \<noteq> r_name role) (roles s),
              role_permissions := filter (\<lambda>rp. rp_role_id rp \<noteq> r_id role) (role_permissions s)\<rparr>)"
proof -
  have g: "getRole (r_name role) s = (Inr role, s)" using assms(1-3) by (rule getRole_found)
  have u: "filter (\<lambda>ur. ur_role_id ur = r_id role) (user_roles s) = []"
    using assms(4) by (auto simp: filter_empty_conv)
  have f: "filter (\<lambda>r. r_name r = r_name role) (roles s) = [role]"
    using assms(2,3) by (rule filter_unique_key)
  have k: "filter (\<lambda>ur. ur_role_id ur \<noteq> r_id role) (user_roles s) = user_roles s"
    using assms(4) by (simp add: filter_id_conv)
  show ?thesis
    using assms(1) by (simp add: DeleteRole_def g scan_one_served u exec_select_served
        delete_roles_served f k)
qed

text \<open>
  C1.  With storage answering: for a role that no UserRole row references, DeleteRole
  returns no error; afterwards no RolePermission row with that role's id is left (and no
  other link row is touched), the Role row is gone, and GetRoles does not list the name.
\<close>

theorem DeleteRole_removes_unassigned_role:
  assumes "faults s = []" and "distinct (map r_name (roles s))" and "role \<in> set (roles s)"
    and "\<forall>ur \<in> set (user_roles s). ur_role_id ur \<noteq> r_id role"
  shows "fst (DeleteRole (r_name role) s) = None \<and>
         (let s' = snd (DeleteRole (r_name role) s)
          in role_permissions s' =
               filter (\<lambda>rp. rp_role_id rp \<noteq> r_id role) (role_permissions s) \<and>
             roles s' = filter (\<lambda>r. r_name r \<noteq> r_name role) (roles s) \<and>
             permissions s' = permissions s \<and>
             user_roles s' = user_roles s \<and>
             (case fst (GetRoles s') of
                Inl _ \<Rightarrow> False
              | Inr names \<Rightarrow> r_name role \<notin> set names))"
  using assms(1) by (auto simp: DeleteRole_served [OF assms] Let_def GetRoles_served)

theorem DeleteRole_removes_unassigned_role_witness:
  "faults (demo_db\<lparr>user_roles := []\<rparr>) = [] \<and>
   fst (DeleteRole ''role-1'' (demo_db\<lparr>user_roles := []\<rparr>)) = None \<and>
   role_permissions (demo_db\<lparr>user_roles := []\<rparr>) \<noteq> [] \<and>
   role_permissions (snd (DeleteRole ''role-1'' (demo_db\<lparr>user_roles := []\<rparr>))) = [] \<and>
   roles (snd (DeleteRole ''role-1'' (demo_db\<lparr>user_roles := []\<rparr>))) = [] \<and>
   fst (GetRoles (snd (DeleteRole ''role-1'' (demo_db\<lparr>user_roles := []\<rparr>)))) = Inr []"
proof -
  let ?s = "demo_db\<lparr>user_roles := []\<rparr>"
  let ?role = "\<lparr>r_id = 1, r_name = ''role-1'', r_title = []\<rparr>"
  have h: "faults ?s = []" "distinct (map r_name (roles ?s))" "?role \<in> set (roles ?s)"
    "\<forall>ur \<in> set (user_roles ?s). ur_role_id ur \<noteq> r_id ?role"
    by (simp_all add: demo_db_def)
  have t: "role_permissions ?s = [\<lparr>rp_id = 1, rp_role_id = 1, rp_permission_id = 1\<rparr>,
                         \<lparr>rp_id = 2, rp_role_id = 1, rp_permission_id = 2\<rparr>]"
    "roles ?s = [?role]"
    by (simp_all add: demo_db_def)
  have "faults (snd (DeleteRole ''role-1'' ?s)) = []"
    using DeleteRole_served [OF h] h(1) by simp
  then have g: "fst (GetRoles (snd (DeleteRole ''role-1'' ?s))) =
      Inr (map r_name (roles (snd (DeleteRole ''role-1'' ?s))))"
    by (simp add: GetRoles_served)
  show ?thesis
    using h(1) DeleteRole_removes_unassigned_role [OF h] t
    by (simp add: Let_def g)
qed

section \<open>CheckPermission and RevokeRolePermission\<close>





section \<open>AssignPermissions\<close>







subsection \<open>The unique names are kept by every write to the two entity tables\<close>

lemma insert_role_keeps_names_unique:
  "distinct (map r_name (roles s)) \<Longrightarrow> distinct (map r_name (roles (snd (insert_role n s))))"
  by (auto simp: insert_role_def round_trip_def split: list.splits option.splits)

lemma insert_permission_keeps_names_unique:
  "distinct (map p_name (permissions s)) \<Longrightarrow>
   distinct (map p_name (permissions (snd (insert_permission n s))))"
  by (auto simp: insert_permission_def round_trip_def split: list.splits option.splits)

lemma delete_roles_keeps_names_unique:
  "distinct (map r_name (roles s)) \<Longrightarrow> distinct (map r_name (roles (snd (delete_roles P s))))"
  by (auto simp: delete_roles_def round_trip_def Let_def distinct_map_filter
      split: list.splits option.splits)

lemma delete_permissions_keeps_names_unique:
  "distinct (map p_name (permissions s)) \<Longrightarrow>
   distinct (map p_name (permissions (snd (delete_permissions P s))))"
  by (auto simp: delete_permissions_def round_trip_def Let_def distinct_map_filter
      split: list.splits option.splits)

subsection \<open>The operation\<close>



section \<open>Storage that fails\<close>

lemma round_trip_fails: "round_trip (s\<lparr>faults := Some c # fs\<rparr>) = (Some c, s\<lparr>faults := fs\<rparr>)"
  by (simp add: round_trip_def)

lemma round_trip_passes: "round_trip (s\<lparr>faults := None # fs\<rparr>) = (None, s\<lparr>faults := fs\<rparr>)"
  by (simp add: round_trip_def)

lemma getRole_storage_failure:
  "getRole n (s\<lparr>faults := Some c # fs\<rparr>) = (Inr zero_Role, s\<lparr>faults := fs\<rparr>)"
  by (simp add: getRole_def scan_one_def round_trip_fails)

lemma getPermission_storage_failure:
  "getPermission n (s\<lparr>faults := Some c # fs\<rparr>) = (Inr zero_Permission, s\<lparr>faults := fs\<rparr>)"
  by (simp add: getPermission_def scan_one_def round_trip_fails)

lemma getRolePermission_storage_failure:
  "getRolePermission r p (s\<lparr>faults := Some c # fs\<rparr>) = (Inl (ErrDriver c), s\<lparr>faults := fs\<rparr>)"
  by (simp add: getRolePermission_def scan_one_def round_trip_fails)

lemma getUserRole_storage_failure:
  "getUserRole u r (s\<lparr>faults := Some c # fs\<rparr>) = (Inl (ErrDriver c), s\<lparr>faults := fs\<rparr>)"
  by (simp add: getUserRole_def scan_one_def round_trip_fails)

lemma RevokeRolePermission_never_driver_error:
  "fst (RevokeRolePermission rn pn s) \<noteq> Some (ErrDriver c)"
  by (auto simp: RevokeRolePermission_def getRole_def getPermission_def
      split: prod.splits sum.splits if_splits)

text \<open>
  C2.  The lookup of getRole and of getPermission failing with a storage error other
  than "no rows": both helpers return the zero-value entity with a nil error, where
  getRolePermission and getUserRole hand the same failure back.
\<close>

theorem getRole_getPermission_swallow_storage_failure:
  "getRole ''role-1'' (demo_db\<lparr>faults := [Some 1]\<rparr>) = (Inr zero_Role, demo_db) \<and>
   getPermission ''perm-1'' (demo_db\<lparr>faults := [Some 1]\<rparr>) = (Inr zero_Permission, demo_db) \<and>
   getRolePermission 1 1 (demo_db\<lparr>faults := [Some 1]\<rparr>) = (Inl (ErrDriver 1), demo_db) \<and>
   getUserRole 1 1 (demo_db\<lparr>faults := [Some 1]\<rparr>) = (Inl (ErrDriver 1), demo_db)"
proof -
  have "demo_db\<lparr>faults := []\<rparr> = demo_db" by (simp add: demo_db_def)
  then show ?thesis
    by (simp add: getRole_storage_failure getPermission_storage_failure
        getRolePermission_storage_failure getUserRole_storage_failure)
qed

text \<open>
  C7.  The delete inside RevokeRolePermission failing: the operation returns nil and
  the link is still in the table.
\<close>

theorem RevokeRolePermission_swallows_delete_failure:
  "delete_role_permissions (\<lambda>rp. rp_role_id rp = 1 \<and> rp_permission_id rp = 1)
       (demo_db\<lparr>faults := [Some 7]\<rparr>) = (Some (ErrDriver 7), demo_db) \<and>
   RevokeRolePermission ''role-1'' ''perm-1'' (demo_db\<lparr>faults := [None, None, Some 7]\<rparr>) =
     (None, demo_db) \<and>
   \<lparr>rp_id = 1, rp_role_id = 1, rp_permission_id = 1\<rparr> \<in> set (role_permissions demo_db) \<and>
   RevokeRole 1 ''role-1'' (demo_db\<lparr>faults := [None, Some 7]\<rparr>) = (Some (ErrDriver 7), demo_db)"
proof -
  have e: "demo_db\<lparr>faults := []\<rparr> = demo_db" by (simp add: demo_db_def)
  have r: "getRole ''role-1'' (demo_db\<lparr>faults := None # fs\<rparr>) =
      (Inr \<lparr>r_id = 1, r_name = ''role-1'', r_title = []\<rparr>, demo_db\<lparr>faults := fs\<rparr>)" for fs
    by (simp add: getRole_def scan_one_def round_trip_passes) (simp add: demo_db_def)
  have p: "getPermission ''perm-1'' (demo_db\<lparr>faults := None # fs\<rparr>) =
      (Inr \<lparr>p_id = 1, p_name = ''perm-1'', p_title = []\<rparr>, demo_db\<lparr>faults := fs\<rparr>)" for fs
    by (simp add: getPermission_def scan_one_def round_trip_passes) (simp add: demo_db_def)
  have d: "delete_role_permissions P (demo_db\<lparr>faults := [Some 7]\<rparr>) = (Some (ErrDriver 7), demo_db)" for P
    by (simp add: delete_role_permissions_def round_trip_fails e)
  have u: "delete_user_roles P (demo_db\<lparr>faults := [Some 7]\<rparr>) = (Some (ErrDriver 7), demo_db)" for P
    by (simp add: delete_user_roles_def round_trip_fails e)
  have m: "\<lparr>rp_id = 1, rp_role_id = 1, rp_permission_id = 1\<rparr> \<in> set (role_permissions demo_db)"
    by (simp add: demo_db_def)
  show ?thesis
    using m by (simp add: RevokeRolePermission_def RevokeRole_def r p d u)
qed

subsection \<open>The guard of DeleteRole when its lookup fails\<close>

text \<open>
  The guard of \<open>DeleteRole\<close> takes every error of its lookup, not only "no rows", as
  "not assigned": when that one SELECT fails, the role is deleted although a user holds it,
  and the cascade takes the user's link with it.
\<close>

lemma exec_select_tables: "tables (snd (exec_select s)) = tables s"
  using round_trip_tables [of s]
  by (auto simp: exec_select_def split: prod.splits option.splits)

lemma DeleteRole_guard_lookup_failure:
  "DeleteRole ''role-1'' (demo_db\<lparr>faults := [None, Some 5]\<rparr>) =
     (None, demo_db\<lparr>roles := [], role_permissions := [], user_roles := []\<rparr>)"
proof -
  have r: "getRole ''role-1'' (demo_db\<lparr>faults := [None, Some 5]\<rparr>) =
      (Inr \<lparr>r_id = 1, r_name = ''role-1'', r_title = []\<rparr>, demo_db\<lparr>faults := [Some 5]\<rparr>)"
    by (simp add: getRole_def scan_one_def round_trip_passes) (simp add: demo_db_def)
  have g: "scan_one user_roles P (demo_db\<lparr>faults := [Some 5]\<rparr>) = (Inl (ErrDriver 5), demo_db)" for P
    by (simp add: scan_one_def round_trip_fails) (simp add: demo_db_def)
  have f: "faults demo_db = []" by (simp add: demo_db_def)
  have d: "delete_roles (\<lambda>r. r_name r = ''role-1'') demo_db =
      (None, demo_db\<lparr>roles := [], role_permissions := [], user_roles := []\<rparr>)"
  proof -
    have t: "roles demo_db = [\<lparr>r_id = 1, r_name = ''role-1'', r_title = []\<rparr>]"
      "role_permissions demo_db = [\<lparr>rp_id = 1, rp_role_id = 1, rp_permission_id = 1\<rparr>,
                         \<lparr>rp_id = 2, rp_role_id = 1, rp_permission_id = 2\<rparr>]"
      "user_roles demo_db = [\<lparr>ur_id = 1, ur_user_id = 1, ur_role_id = 1\<rparr>]"
      by (simp_all add: demo_db_def)
    show ?thesis by (simp add: delete_roles_served f t)
  qed
  show ?thesis
    by (simp add: DeleteRole_def r g exec_select_served f d)
qed

end
